theory Spec2Isabelle
  imports Main
begin

section \<open>JavaScript values, errors and the process environment\<close>

text \<open>
  The module \<open>src/main.js\<close> is embedded function by function. What the code takes from
  its platform (the environment variables, the file system, the browser engine, the clock,
  the caller's callback, \<open>./logging.js\<close>) is a field of the record \<open>world\<close> below;
  every \<open>throw\<close> of the source and every rejection of an awaited call is a value
  \<open>Throw e\<close> of the type \<open>completion\<close>.
\<close>

datatype js_error =
    Error string          \<comment> \<open>\<open>new Error(message)\<close>, thrown by the module itself\<close>
  | TypeError string      \<comment> \<open>reading the named property of \<open>undefined\<close>\<close>
  | External string       \<comment> \<open>an error raised by a collaborator (engine, file system, callback)\<close>

datatype js_value = Undefined | Null | Str string | Num int

text \<open>JavaScript truthiness, as used by \<open>!x\<close>, \<open>x ? a : b\<close> and \<open>x || d\<close>.\<close>

fun truthy :: "js_value \<Rightarrow> bool" where
  "truthy Undefined = False"
| "truthy Null = False"
| "truthy (Str s) = (s \<noteq> [])"
| "truthy (Num n) = (n \<noteq> 0)"

text \<open>Decimal rendering of a number inside a template literal.\<close>

fun digits_of :: "nat \<Rightarrow> string" where
  "digits_of n =
     (if n < 10 then [char_of (48 + n)]
      else digits_of (n div 10) @ [char_of (48 + n mod 10)])"

definition show_int :: "int \<Rightarrow> string" where
  "show_int i = (if i < 0 then CHR ''-'' # digits_of (nat (- i)) else digits_of (nat i))"

fun to_string :: "js_value \<Rightarrow> string" where
  "to_string Undefined = ''undefined''"
| "to_string Null = ''null''"
| "to_string (Str s) = s"
| "to_string (Num n) = show_int n"

text \<open>\<open>process.env\<close>: a variable is a string or absent.\<close>

type_synonym env = "string \<Rightarrow> string option"

text \<open>\<open>process.env.X || d\<close> on strings: the default replaces an absent and an empty value.\<close>

definition or_default :: "string option \<Rightarrow> string \<Rightarrow> string" where
  "or_default v d = (case v of None \<Rightarrow> d | Some s \<Rightarrow> if s \<noteq> [] then s else d)"

subsection \<open>\<open>parseInt(s, 10)\<close>\<close>

text \<open>
  \<open>parseInt\<close> with radix 10 skips leading white space, reads an optional sign and then
  the longest run of decimal digits; with no digit the result is \<open>NaN\<close>, here \<open>None\<close>.
  An absent variable is the string \<open>undefined\<close>, which has no digit. White space is the
  ASCII part of the JavaScript class; the value is an unbounded \<open>int\<close>, which agrees with
  the double of the source on \<open>NaN\<close> and on zero.
\<close>

definition isWhiteSpace :: "char \<Rightarrow> bool" where
  "isWhiteSpace c = (c \<in> set [CHR 0x09, CHR 0x0A, CHR 0x0B, CHR 0x0C, CHR 0x0D, CHR 0x20])"

definition isDigit :: "char \<Rightarrow> bool" where
  "isDigit c = (48 \<le> (of_char c :: nat) \<and> (of_char c :: nat) \<le> 57)"

definition digit_value :: "char \<Rightarrow> nat" where
  "digit_value c = of_char c - 48"

definition strip_sign :: "string \<Rightarrow> bool \<times> string" where
  "strip_sign t =
     (case t of
        [] \<Rightarrow> (False, [])
      | c # r \<Rightarrow> if c = CHR ''-'' then (True, r)
                 else if c = CHR ''+'' then (False, r)
                 else (False, t))"

definition parseInt :: "string option \<Rightarrow> int option" where
  "parseInt v =
     (case v of
        None \<Rightarrow> None
      | Some s \<Rightarrow>
          (let (neg, u) = strip_sign (dropWhile isWhiteSpace s);
               ds = takeWhile isDigit u
           in if ds = [] then None
              else Some ((if neg then - 1 else 1)
                         * int (foldl (\<lambda>a c. 10 * a + digit_value c) 0 ds))))"

text \<open>\<open>n || d\<close> on numbers: \<open>NaN\<close> and \<open>0\<close> are falsy.\<close>

definition num_or :: "int option \<Rightarrow> int \<Rightarrow> int" where
  "num_or v d = (case v of None \<Rightarrow> d | Some n \<Rightarrow> if n \<noteq> 0 then n else d)"

subsection \<open>The module constants (lines 28 to 37)\<close>

definition DEMO_MODE :: "env \<Rightarrow> bool" where
  "DEMO_MODE e = (e ''DEMO_MODE'' \<noteq> Some ''false'')"

definition LOGS_FOLDER_PATH :: "env \<Rightarrow> string" where
  "LOGS_FOLDER_PATH e = or_default (e ''LOGS_FOLDER_PATH'') ''data/logs'' @ ''/''"

definition SCREENSHOT_FOLDER_PATH :: "env \<Rightarrow> string" where
  "SCREENSHOT_FOLDER_PATH e = or_default (e ''SCREENSHOT_FOLDER_PATH'') ''data/screenshots'' @ ''/''"

definition BASE_URL :: "env \<Rightarrow> js_value" where
  "BASE_URL e =
     (case e ''BASE_URL'' of
        None \<Rightarrow> Null
      | Some s \<Rightarrow> if s \<noteq> [] then Str (s @ ''/'') else Null)"

definition DEFAULT_ADDITIONAL_WAIT_TIME_SECONDS :: "env \<Rightarrow> int" where
  "DEFAULT_ADDITIONAL_WAIT_TIME_SECONDS e =
     num_or (parseInt (e ''DEFAULT_ADDITIONAL_WAIT_TIME_SECONDS'')) 3"

definition QUESTION_TIMEOUT_SECONDS :: "env \<Rightarrow> int" where
  "QUESTION_TIMEOUT_SECONDS e = num_or (parseInt (e ''QUESTION_TIMEOUT_SECONDS'')) 30"

definition USER_AGENT :: "env \<Rightarrow> string" where
  "USER_AGENT e =
     or_default (e ''USER_AGENT'')
       ''Mozilla/5.0 (Windows NT 10.0; Win64; x64) AppleWebKit/537.36 (KHTML, like Gecko) Chrome/58.0.3029.110 Safari/537.3''"

definition USER_DATA_DIR :: "env \<Rightarrow> js_value" where
  "USER_DATA_DIR e = (case e ''USER_DATA_DIR'' of None \<Rightarrow> Undefined | Some s \<Rightarrow> Str s)"

section \<open>Effects: the observable trace and the module state\<close>

record options =
  headless :: bool
  viewport :: "(nat \<times> nat) option"
  args :: "string list"
  userAgent :: string

text \<open>Every call that leaves the module is recorded, in program order, when it is made.\<close>

datatype event =
    ConsoleLog string
  | ConsoleError string js_error
  | ConsoleTime string
  | ConsoleTimeEnd string
  | MkdirSync string
  | LoggingSetup bool string
  | LaunchPersistentContext string options
  | Launch options
  | NewPage
  | Goto js_value
  | WaitForLoadState string
  | WaitForTimeout int
  | Processing
  | Screenshot string
  | ReadlineClose
  | PageClose
  | ContextClose
  | ProcessExit int

text \<open>
  What the collaborators answer during one run: \<open>None\<close> is success, \<open>Some e\<close> the error
  the call raises. \<open>loggingSetup\<close> is the import from \<open>./logging.js\<close>;
  \<open>processing\<close> is the caller's callback, which the module does not inspect.
\<close>

record world =
  env :: env
  existsSync :: "string \<Rightarrow> bool"
  mkdirSync :: "string \<Rightarrow> js_error option"
  loggingSetup :: "js_error option"
  launchPersistentContext :: "js_error option"
  launch :: "js_error option"
  newPage :: "js_error option"
  goto :: "js_error option"
  waitForLoadState :: "string \<Rightarrow> js_error option"
  waitForTimeout :: "js_error option"
  processing :: "js_error option"
  screenshot :: "js_error option"
  pageClose :: "js_error option"
  contextClose :: "js_error option"
  toISOString :: string
  path_join :: "string \<Rightarrow> string \<Rightarrow> string"

datatype session = PersistentContext string | Browser

datatype page = Page

text \<open>The two variables of \<open>main\<close> (\<open>let context; let page;\<close>) and the trace.\<close>

record state =
  context_var :: "session option"
  page_var :: "page option"
  trace :: "event list"

definition initial :: state where
  "initial = \<lparr>context_var = None, page_var = None, trace = []\<rparr>"

datatype completion = Normal | Throw js_error | Exit int

type_synonym step = "state \<Rightarrow> completion \<times> state"

definition emit :: "event \<Rightarrow> step" where
  "emit ev s = (Normal, s\<lparr>trace := trace s @ [ev]\<rparr>)"

definition throw :: "js_error \<Rightarrow> step" where
  "throw e s = (Throw e, s)"

text \<open>A call to a collaborator: recorded, then it returns or raises.\<close>

definition external :: "event \<Rightarrow> js_error option \<Rightarrow> step" where
  "external ev r s =
     ((case r of None \<Rightarrow> Normal | Some e \<Rightarrow> Throw e), s\<lparr>trace := trace s @ [ev]\<rparr>)"

text \<open>
  A method call \<open>x.m(...)\<close> on a variable that may be \<open>undefined\<close>: reading the
  property of \<open>undefined\<close> is a \<open>TypeError\<close> and the call is not made.
\<close>

definition method_call :: "'a option \<Rightarrow> string \<Rightarrow> event \<Rightarrow> js_error option \<Rightarrow> step" where
  "method_call receiver m ev r =
     (case receiver of None \<Rightarrow> throw (TypeError m) | Some _ \<Rightarrow> external ev r)"

text \<open>A statement that reads the variable \<open>page\<close>, or \<open>context\<close>, when it runs.\<close>

definition read_page :: "(page option \<Rightarrow> step) \<Rightarrow> step" where
  "read_page f s = f (page_var s) s"

definition read_context :: "(session option \<Rightarrow> step) \<Rightarrow> step" where
  "read_context f s = f (context_var s) s"

text \<open>Statements in sequence: the first one that does not complete normally ends the block.\<close>

fun run_seq :: "step list \<Rightarrow> step" where
  "run_seq [] s = (Normal, s)"
| "run_seq (f # fs) s =
     (case f s of
        (Normal, s') \<Rightarrow> run_seq fs s'
      | (c, s') \<Rightarrow> (c, s'))"

text \<open>
  \<open>try { body } catch (error) { handler } finally { fin }\<close>: the handler runs on a
  throw of the body; the finally block runs unless the process has exited; a throw or an
  exit of the finally block replaces the pending completion.
\<close>

definition try_catch_finally :: "step \<Rightarrow> (js_error \<Rightarrow> step) \<Rightarrow> step \<Rightarrow> step" where
  "try_catch_finally body handler fin s =
     (let (c1, s1) = body s;
          (c2, s2) = (case c1 of Throw e \<Rightarrow> handler e s1 | _ \<Rightarrow> (c1, s1))
      in case c2 of
           Exit n \<Rightarrow> (c2, s2)
         | _ \<Rightarrow> (let (c3, s3) = fin s2
                 in case c3 of Normal \<Rightarrow> (c2, s3) | _ \<Rightarrow> (c3, s3)))"

definition process_exit :: "int \<Rightarrow> step" where
  "process_exit n s = (Exit n, s\<lparr>trace := trace s @ [ProcessExit n]\<rparr>)"

section \<open>Setup (lines 44 to 91)\<close>

definition assertEnvVariableValue :: "js_value \<Rightarrow> string \<Rightarrow> bool \<Rightarrow> step" where
  "assertEnvVariableValue envVariableValue envVariableName required =
     (if \<not> truthy envVariableValue \<and> required
      then throw (Error (envVariableName @ '' environment variable is not set.''))
      else if truthy envVariableValue
      then emit (ConsoleLog (envVariableName @ '' is set to: '' @ to_string envVariableValue))
      else emit (ConsoleLog (envVariableName @ '' is not set'')))"

definition assertFolderPathValue :: "world \<Rightarrow> string \<Rightarrow> string \<Rightarrow> step" where
  "assertFolderPathValue w folderPathValue folderPathName =
     (if folderPathValue = []
      then throw (Error (folderPathName @ '' is not set.''))
      else run_seq
        [if \<not> existsSync w folderPathValue
         then external (MkdirSync folderPathValue) (mkdirSync w folderPathValue)
         else run_seq [],
         emit (ConsoleLog (folderPathName @ '' is set to '' @ folderPathValue @ '' ''))])"

text \<open>The function \<open>setup\<close> of the source.\<close>

definition setup_step :: "world \<Rightarrow> step" where
  "setup_step w =
     run_seq
       [emit (ConsoleLog ''Starting Setup...''),
        assertFolderPathValue w (LOGS_FOLDER_PATH (env w)) ''LOGS_FOLDER_PATH'',
        external (LoggingSetup (DEMO_MODE (env w)) (LOGS_FOLDER_PATH (env w))) (loggingSetup w),
        assertFolderPathValue w (SCREENSHOT_FOLDER_PATH (env w)) ''SCREENSHOT_FOLDER_PATH'',
        assertEnvVariableValue (BASE_URL (env w)) ''BASE_URL'' True,
        assertEnvVariableValue (Str (USER_AGENT (env w))) ''USER_AGENT'' True,
        assertEnvVariableValue (Num (DEFAULT_ADDITIONAL_WAIT_TIME_SECONDS (env w)))
          ''DEFAULT_ADDITIONAL_WAIT_TIME_SECONDS'' True,
        assertEnvVariableValue (USER_DATA_DIR (env w)) ''USER_DATA_DIR'' False,
        emit (ConsoleLog ''Setup completed successfully.'')]"

section \<open>Page readiness and screenshots (lines 155 to 163, 200 to 207)\<close>

definition waitEntirePageToLoad :: "world \<Rightarrow> page option \<Rightarrow> int option \<Rightarrow> step" where
  "waitEntirePageToLoad w page additionalWaitTimeSeconds =
     (let seconds = (case additionalWaitTimeSeconds of
                       None \<Rightarrow> DEFAULT_ADDITIONAL_WAIT_TIME_SECONDS (env w)
                     | Some n \<Rightarrow> n)
      in run_seq
           [emit (ConsoleTime ''Page fully loaded.''),
            method_call page ''waitForLoadState'' (WaitForLoadState ''domcontentloaded'')
              (waitForLoadState w ''domcontentloaded''),
            method_call page ''waitForLoadState'' (WaitForLoadState ''load'')
              (waitForLoadState w ''load''),
            method_call page ''waitForLoadState'' (WaitForLoadState ''networkidle'')
              (waitForLoadState w ''networkidle''),
            method_call page ''waitForTimeout'' (WaitForTimeout (1000 * seconds))
              (waitForTimeout w),
            emit (ConsoleTimeEnd ''Page fully loaded.'')])"

text \<open>\<open>.replace(/[:.]/g, '-')\<close>\<close>

definition replace_colon_dot :: "string \<Rightarrow> string" where
  "replace_colon_dot t = map (\<lambda>c. if c = CHR '':'' \<or> c = CHR ''.'' then CHR ''-'' else c) t"

definition screenshotFileName :: "world \<Rightarrow> string option \<Rightarrow> string" where
  "screenshotFileName w prefix_arg =
     (let prefix0 = (case prefix_arg of None \<Rightarrow> [] | Some p \<Rightarrow> p);
          isoDateTime = replace_colon_dot (toISOString w);
          demoLabel = (if DEMO_MODE (env w) then ''DEMO-'' else []);
          prefix = (if prefix0 \<noteq> [] then prefix0 @ ''-'' else prefix0)
      in demoLabel @ prefix @ ''screenshot-'' @ isoDateTime @ ''.png'')"

definition takeScreenshot :: "world \<Rightarrow> page option \<Rightarrow> string option \<Rightarrow> step" where
  "takeScreenshot w page prefix_arg =
     run_seq
       [method_call page ''screenshot''
          (Screenshot (path_join w (SCREENSHOT_FOLDER_PATH (env w)) (screenshotFileName w prefix_arg)))
          (screenshot w),
        emit (ConsoleLog (''Screenshot taken: '' @ screenshotFileName w prefix_arg))]"

section \<open>The orchestrator (lines 105 to 148)\<close>

definition main_options :: "world \<Rightarrow> options" where
  "main_options w =
     \<lparr>headless = False, viewport = None, args = [''--start-maximized''],
      userAgent = USER_AGENT (env w)\<rparr>"

definition set_context :: "session \<Rightarrow> step" where
  "set_context c s = (Normal, s\<lparr>context_var := Some c\<rparr>)"

definition set_page :: "page \<Rightarrow> step" where
  "set_page p s = (Normal, s\<lparr>page_var := Some p\<rparr>)"

definition acquire_context :: "world \<Rightarrow> step" where
  "acquire_context w =
     (if truthy (USER_DATA_DIR (env w))
      then run_seq
             [external (LaunchPersistentContext (to_string (USER_DATA_DIR (env w))) (main_options w))
                (launchPersistentContext w),
              set_context (PersistentContext (to_string (USER_DATA_DIR (env w))))]
      else run_seq [external (Launch (main_options w)) (launch w), set_context Browser])"

definition main_try :: "world \<Rightarrow> step" where
  "main_try w =
     run_seq
       [emit (ConsoleLog ([CHR 0x0A, CHR 0x0A] @ '' **** Starting ****'')),
        setup_step w,
        acquire_context w,
        read_context (\<lambda>context. method_call context ''newPage'' NewPage (newPage w)),
        set_page Page,
        read_page (\<lambda>page. method_call page ''goto'' (Goto (BASE_URL (env w))) (goto w)),
        read_page (\<lambda>page. waitEntirePageToLoad w page None),
        external Processing (processing w),
        emit (ConsoleLog ''Finishing...'')]"

definition main_catch :: "world \<Rightarrow> js_error \<Rightarrow> step" where
  "main_catch w error =
     run_seq
       [emit (ConsoleError ''Error occurred while processing visitors:'' error),
        read_page (\<lambda>page. takeScreenshot w page (Some ''error''))]"

definition main_finally :: "world \<Rightarrow> step" where
  "main_finally w =
     run_seq
       [emit (ConsoleLog ''Closing resources...''),
        emit ReadlineClose,
        read_page (\<lambda>page. method_call page ''close'' PageClose (pageClose w)),
        read_context (\<lambda>context. method_call context ''close'' ContextClose (contextClose w)),
        emit (ConsoleLog ''**** Done **** ''),
        process_exit 0]"

definition main :: "world \<Rightarrow> completion \<times> state" where
  "main w = try_catch_finally (main_try w) (main_catch w) (main_finally w) initial"

section \<open>The prompt (lines 39, 171 to 193 and 209 to 212)\<close>

text \<open>
  \<open>askUser\<close> returns at once with a pending promise; what happens next is driven by two
  inputs of the platform: the operator enters a line, or the timer of \<open>setTimeout\<close>
  fires. The record holds what these callbacks read and write:
  \<^item> \<open>userAnswer\<close>: the variable of line 174;
  \<^item> \<open>aborted\<close>: \<open>signal.aborted\<close>;
  \<^item> \<open>timeout_listener\<close>: the listener of lines 176 to 179 is registered (\<open>once\<close>);
  \<^item> \<open>question_pending\<close>: readline holds the callback of line 188, together with the
    abort listener that \<open>question\<close> registers for the signal it was given;
  \<^item> \<open>timer\<close>: the delay in milliseconds of the timer of line 181, until it has fired;
  \<^item> \<open>returned\<close>: the promise returned to the caller;
  \<^item> \<open>closed\<close>: \<open>readlineInterface\<close> has been closed;
  \<^item> \<open>uncaught\<close>: the errors handed to \<open>process.on('uncaughtException')\<close>.
\<close>

datatype promise = Pending | Resolved string | Rejected js_error

record prompt =
  query :: string
  userAnswer :: js_value
  aborted :: bool
  timeout_listener :: bool
  question_pending :: bool
  timer :: "int option"
  returned :: promise
  closed :: bool
  uncaught :: "js_error list"

datatype input = Line string | TimerFires

text \<open>
  \<open>askUser(question, timeout)\<close> on a channel that is open or already closed. The executor
  of \<open>new Promise\<close> receives \<open>resolve\<close> only. On a closed interface \<open>question\<close>
  throws inside the executor (as current versions of Node do), which rejects the promise.
\<close>

definition askUser :: "env \<Rightarrow> bool \<Rightarrow> string \<Rightarrow> int option \<Rightarrow> prompt" where
  "askUser e channel_closed question timeout_arg =
     (let timeout = (case timeout_arg of None \<Rightarrow> QUESTION_TIMEOUT_SECONDS e | Some t \<Rightarrow> t)
      in \<lparr>query = question,
          userAnswer = Undefined,
          aborted = False,
          timeout_listener = True,
          question_pending = (\<not> channel_closed),
          timer = Some (1000 * timeout),
          returned = (if channel_closed then Rejected (External ''ERR_USE_AFTER_CLOSE'') else Pending),
          closed = channel_closed,
          uncaught = []\<rparr>)"

text \<open>Lines 209 to 212: the handler closes the channel and prints the error.\<close>

definition uncaughtException :: "js_error \<Rightarrow> prompt \<Rightarrow> prompt" where
  "uncaughtException err p = p\<lparr>closed := True, uncaught := uncaught p @ [err]\<rparr>"

text \<open>
  \<open>abortController.abort()\<close>: nothing on a signal already aborted (so the nested call of
  line 177 does nothing). Otherwise the listeners run in the order of registration. The
  listener of line 176 throws inside the event dispatch: the error is not an exception of
  \<open>askUser\<close> or of its promise, it is reported to the process as uncaught. The listener of
  readline cancels the question, whose callback is then never called.
\<close>

definition abort :: "prompt \<Rightarrow> prompt" where
  "abort p =
     (if aborted p then p
      else (let p1 = p\<lparr>aborted := True\<rparr>;
                thrown = timeout_listener p1;
                p2 = p1\<lparr>timeout_listener := False\<rparr>;
                p3 = p2\<lparr>question_pending := False\<rparr>
            in if thrown then uncaughtException (Error ''The question timed out...'') p3 else p3))"

fun step :: "prompt \<Rightarrow> input \<Rightarrow> prompt" where
  "step p (Line answer) =
     (if closed p \<or> \<not> question_pending p then p
      else p\<lparr>question_pending := False, userAnswer := Str answer, returned := Resolved answer\<rparr>)"
| "step p TimerFires =
     (case timer p of
        None \<Rightarrow> p
      | Some _ \<Rightarrow>
          (let p1 = p\<lparr>timer := None\<rparr>
           in if \<not> truthy (userAnswer p1) then abort p1 else p1))"

definition run :: "prompt \<Rightarrow> input list \<Rightarrow> prompt" where
  "run p inputs = foldl step p inputs"

section \<open>Example runs\<close>

text \<open>
  A run in which every collaborator succeeds and only \<open>BASE_URL\<close> is set. The folder
  constants end with a slash, so here \<open>path.join\<close> is taken to be concatenation.
\<close>

definition example_env :: env where
  "example_env = (\<lambda>k. if k = ''BASE_URL'' then Some ''https://example.org'' else None)"

definition example_world :: world where
  "example_world =
     \<lparr>env = example_env, existsSync = (\<lambda>_. True), mkdirSync = (\<lambda>_. None), loggingSetup = None,
      launchPersistentContext = None, launch = None, newPage = None, goto = None,
      waitForLoadState = (\<lambda>_. None), waitForTimeout = None, processing = None,
      screenshot = None, pageClose = None, contextClose = None,
      toISOString = ''2024-01-02T03:04:05.678Z'', path_join = (\<lambda>d f. d @ f)\<rparr>"

text \<open>The same run with no \<open>BASE_URL\<close>, with a page that fails to close, and with a
  callback that raises while the engine then fails to take the screenshot.\<close>

definition no_base_url_world :: world where
  "no_base_url_world = example_world\<lparr>env := (\<lambda>k. None)\<rparr>"

definition page_close_fails_world :: world where
  "page_close_fails_world = example_world\<lparr>pageClose := Some (External ''page is gone'')\<rparr>"



definition persistent_world :: world where
  "persistent_world =
     example_world\<lparr>env := (\<lambda>k. if k = ''USER_DATA_DIR'' then Some ''profile'' else example_env k)\<rparr>"

section \<open>Notions used to state the properties\<close>

text \<open>Kinds of events.\<close>

fun is_close :: "event \<Rightarrow> bool" where
  "is_close ReadlineClose = True"
| "is_close PageClose = True"
| "is_close ContextClose = True"
| "is_close _ = False"

fun is_setup_event :: "event \<Rightarrow> bool" where
  "is_setup_event (ConsoleLog _) = True"
| "is_setup_event (MkdirSync _) = True"
| "is_setup_event (LoggingSetup _ _) = True"
| "is_setup_event _ = False"

fun is_wait_event :: "event \<Rightarrow> bool" where
  "is_wait_event (ConsoleTime _) = True"
| "is_wait_event (ConsoleTimeEnd _) = True"
| "is_wait_event (WaitForLoadState _) = True"
| "is_wait_event (WaitForTimeout _) = True"
| "is_wait_event _ = False"

text \<open>The calls that acquire the session: a launch of either kind, a new page, a navigation.\<close>

fun is_launch :: "event \<Rightarrow> bool" where
  "is_launch (LaunchPersistentContext _ _) = True"
| "is_launch (Launch _) = True"
| "is_launch _ = False"

fun is_acquisition :: "event \<Rightarrow> bool" where
  "is_acquisition (LaunchPersistentContext _ _) = True"
| "is_acquisition (Launch _) = True"
| "is_acquisition NewPage = True"
| "is_acquisition (Goto _) = True"
| "is_acquisition _ = False"

text \<open>
  A step that does not touch the variables, never exits the process, and whose completion
  and events do not depend on the state it starts from.
\<close>

definition emits_only :: "(event \<Rightarrow> bool) \<Rightarrow> step \<Rightarrow> bool" where
  "emits_only P f \<longleftrightarrow>
     (\<exists>c evs. (\<forall>s. f s = (c, s\<lparr>trace := trace s @ evs\<rparr>)) \<and> list_all P evs \<and> (\<forall>n. c \<noteq> Exit n))"

text \<open>How \<open>setup\<close> and the first wait of \<open>main\<close> complete, and what they emit.\<close>

definition setup_result :: "world \<Rightarrow> completion" where
  "setup_result w = fst (setup_step w initial)"

definition setup_events :: "world \<Rightarrow> event list" where
  "setup_events w = trace (snd (setup_step w initial))"

definition wait_result :: "world \<Rightarrow> completion" where
  "wait_result w = fst (waitEntirePageToLoad w (Some Page) None initial)"

definition wait_events :: "world \<Rightarrow> event list" where
  "wait_events w = trace (snd (waitEntirePageToLoad w (Some Page) None initial))"

text \<open>The error, if any, of making sure that a folder exists (lines 87 and 88).\<close>

definition folder_failure :: "world \<Rightarrow> string \<Rightarrow> js_error option" where
  "folder_failure w p = (if existsSync w p then None else mkdirSync w p)"

text \<open>The launch that lines 120 to 124 select, its outcome and the session it yields.\<close>

definition launch_event :: "world \<Rightarrow> event" where
  "launch_event w =
     (if truthy (USER_DATA_DIR (env w))
      then LaunchPersistentContext (to_string (USER_DATA_DIR (env w))) (main_options w)
      else Launch (main_options w))"

definition launch_failure :: "world \<Rightarrow> js_error option" where
  "launch_failure w = (if truthy (USER_DATA_DIR (env w)) then launchPersistentContext w else launch w)"

definition launch_session :: "world \<Rightarrow> session" where
  "launch_session w =
     (if truthy (USER_DATA_DIR (env w)) then PersistentContext (to_string (USER_DATA_DIR (env w)))
      else Browser)"

text \<open>The state in which the \<open>finally\<close> block of \<open>main\<close> starts.\<close>

definition before_finally :: "world \<Rightarrow> state" where
  "before_finally w =
     (case fst (main_try w initial) of
        Throw e \<Rightarrow> snd (main_catch w e (snd (main_try w initial)))
      | _ \<Rightarrow> snd (main_try w initial))"

section \<open>Facts about the blocks of the module\<close>

subsection \<open>Steps whose effect does not depend on the state\<close>

lemma emits_only_emit: "P ev \<Longrightarrow> emits_only P (emit ev)"
  unfolding emits_only_def emit_def
  by (rule exI [of _ Normal], rule exI [of _ "[ev]"]) simp

lemma emits_only_throw: "emits_only P (throw e)"
  unfolding emits_only_def throw_def
  by (rule exI [of _ "Throw e"], rule exI [of _ "[]"]) simp

lemma emits_only_external: "P ev \<Longrightarrow> emits_only P (external ev r)"
  unfolding emits_only_def external_def
  by (rule exI [of _ "case r of None \<Rightarrow> Normal | Some e \<Rightarrow> Throw e"], rule exI [of _ "[ev]"])
     (simp split: option.splits)

lemma emits_only_method_call: "P ev \<Longrightarrow> emits_only P (method_call x m ev r)"
  unfolding method_call_def by (cases x) (simp_all add: emits_only_throw emits_only_external)

lemma emits_only_if: "emits_only P f \<Longrightarrow> emits_only P g \<Longrightarrow> emits_only P (if b then f else g)"
  by simp

lemma emits_only_run_seq: "list_all (emits_only P) fs \<Longrightarrow> emits_only P (run_seq fs)"
proof (induction fs)
  case Nil
  show ?case unfolding emits_only_def
    by (rule exI [of _ Normal], rule exI [of _ "[]"]) simp
next
  case (Cons f fs)
  then obtain c evs where f: "\<And>s. f s = (c, s\<lparr>trace := trace s @ evs\<rparr>)"
    and evs: "list_all P evs" and c: "\<And>n. c \<noteq> Exit n"
    unfolding emits_only_def by auto
  from Cons obtain c' evs' where fs: "\<And>s. run_seq fs s = (c', s\<lparr>trace := trace s @ evs'\<rparr>)"
    and evs': "list_all P evs'" and c': "\<And>n. c' \<noteq> Exit n"
    unfolding emits_only_def by auto
  show ?case
  proof (cases c)
    case Normal
    have "\<forall>s. run_seq (f # fs) s = (c', s\<lparr>trace := trace s @ (evs @ evs')\<rparr>)"
      by (simp add: f fs Normal)
    with evs evs' c' show ?thesis unfolding emits_only_def by (intro exI [of _ c'] exI [of _ "evs @ evs'"]) simp
  next
    case (Throw e)
    have "\<forall>s. run_seq (f # fs) s = (c, s\<lparr>trace := trace s @ evs\<rparr>)"
      by (simp add: f Throw)
    with evs c show ?thesis unfolding emits_only_def by blast
  next
    case (Exit n)
    with c [of n] show ?thesis by simp
  qed
qed

lemmas emits_only_intros = emits_only_emit emits_only_throw emits_only_external
  emits_only_method_call emits_only_if emits_only_run_seq

lemma emits_only_proj:
  assumes "emits_only P f"
  shows "fst (f s) = fst (f initial)"
    and "trace (snd (f s)) = trace s @ trace (snd (f initial))"
    and "page_var (snd (f s)) = page_var s"
    and "context_var (snd (f s)) = context_var s"
    and "list_all P (trace (snd (f initial)))"
    and "fst (f initial) \<noteq> Exit n"
proof -
  from assms obtain c evs where f: "\<And>s. f s = (c, s\<lparr>trace := trace s @ evs\<rparr>)"
    and evs: "list_all P evs" and c: "\<And>n. c \<noteq> Exit n"
    unfolding emits_only_def by auto
  show "fst (f s) = fst (f initial)" by (simp add: f)
  show "trace (snd (f s)) = trace s @ trace (snd (f initial))" by (simp add: f initial_def)
  show "page_var (snd (f s)) = page_var s" by (simp add: f)
  show "context_var (snd (f s)) = context_var s" by (simp add: f)
  show "list_all P (trace (snd (f initial)))" using evs by (simp add: f initial_def)
  show "fst (f initial) \<noteq> Exit n" using c by (simp add: f)
qed

lemma setup_emits: "emits_only is_setup_event (setup_step w)"
  unfolding setup_step_def assertFolderPathValue_def assertEnvVariableValue_def
  by (simp add: emits_only_intros)

lemma wait_emits: "emits_only is_wait_event (waitEntirePageToLoad w page arg)"
  unfolding waitEntirePageToLoad_def Let_def
  by (simp add: emits_only_intros)

subsection \<open>Completion and final state of a block\<close>

text \<open>
  The completion, the trace and the two variables after a block are computed step by
  step from these equations; the equation of \<open>run_seq\<close> itself is then no longer unfolded.
\<close>

lemma fst_run_seq_Nil: "fst (run_seq [] s) = Normal"
  by simp

lemma fst_run_seq_Cons:
  "fst (run_seq (f # fs) s) = (case fst (f s) of Normal \<Rightarrow> fst (run_seq fs (snd (f s))) | c \<Rightarrow> c)"
  by (cases "f s") (simp split: completion.splits)

lemma snd_run_seq_Cons:
  "snd (run_seq (f # fs) s) = (case fst (f s) of Normal \<Rightarrow> snd (run_seq fs (snd (f s))) | c \<Rightarrow> snd (f s))"
  by (cases "f s") (simp add: run_seq.simps split: completion.splits)

declare run_seq.simps(2) [simp del]

lemma trace_run_seq_Nil: "trace (snd (run_seq [] s)) = trace s"
  and page_run_seq_Nil: "page_var (snd (run_seq [] s)) = page_var s"
  and context_run_seq_Nil: "context_var (snd (run_seq [] s)) = context_var s"
  by simp_all

lemma trace_run_seq_Cons:
  "trace (snd (run_seq (f # fs) s)) =
     (case fst (f s) of Normal \<Rightarrow> trace (snd (run_seq fs (snd (f s)))) | c \<Rightarrow> trace (snd (f s)))"
  by (simp add: snd_run_seq_Cons split: completion.splits)

lemma page_run_seq_Cons:
  "page_var (snd (run_seq (f # fs) s)) =
     (case fst (f s) of Normal \<Rightarrow> page_var (snd (run_seq fs (snd (f s)))) | c \<Rightarrow> page_var (snd (f s)))"
  by (simp add: snd_run_seq_Cons split: completion.splits)

lemma context_run_seq_Cons:
  "context_var (snd (run_seq (f # fs) s)) =
     (case fst (f s) of Normal \<Rightarrow> context_var (snd (run_seq fs (snd (f s)))) | c \<Rightarrow> context_var (snd (f s)))"
  by (simp add: snd_run_seq_Cons split: completion.splits)

lemma fst_emit: "fst (emit ev s) = Normal"
  by (simp add: emit_def)

lemma trace_emit: "trace (snd (emit ev s)) = trace s @ [ev]"
  and page_emit: "page_var (snd (emit ev s)) = page_var s"
  and context_emit: "context_var (snd (emit ev s)) = context_var s"
  by (simp_all add: emit_def)

lemma fst_throw: "fst (throw e s) = Throw e"
  by (simp add: throw_def)

lemma trace_throw: "trace (snd (throw e s)) = trace s"
  and page_throw: "page_var (snd (throw e s)) = page_var s"
  and context_throw: "context_var (snd (throw e s)) = context_var s"
  by (simp_all add: throw_def)

lemma fst_external: "fst (external ev r s) = (case r of None \<Rightarrow> Normal | Some e \<Rightarrow> Throw e)"
  by (simp add: external_def)

lemma trace_external: "trace (snd (external ev r s)) = trace s @ [ev]"
  and page_external: "page_var (snd (external ev r s)) = page_var s"
  and context_external: "context_var (snd (external ev r s)) = context_var s"
  by (simp_all add: external_def)

lemma fst_method_call:
  "fst (method_call x m ev r s) =
     (case x of None \<Rightarrow> Throw (TypeError m) | Some _ \<Rightarrow> (case r of None \<Rightarrow> Normal | Some e \<Rightarrow> Throw e))"
  by (simp add: method_call_def fst_throw fst_external split: option.splits)

lemma trace_method_call:
  "trace (snd (method_call x m ev r s)) = trace s @ (case x of None \<Rightarrow> [] | Some _ \<Rightarrow> [ev])"
  and page_method_call: "page_var (snd (method_call x m ev r s)) = page_var s"
  and context_method_call: "context_var (snd (method_call x m ev r s)) = context_var s"
  by (simp_all add: method_call_def throw_def external_def split: option.splits)

lemma fst_set_context: "fst (set_context c s) = Normal"
  and trace_set_context: "trace (snd (set_context c s)) = trace s"
  and page_set_context: "page_var (snd (set_context c s)) = page_var s"
  and context_set_context: "context_var (snd (set_context c s)) = Some c"
  by (simp_all add: set_context_def)

lemma fst_set_page: "fst (set_page p s) = Normal"
  and trace_set_page: "trace (snd (set_page p s)) = trace s"
  and page_set_page: "page_var (snd (set_page p s)) = Some p"
  and context_set_page: "context_var (snd (set_page p s)) = context_var s"
  by (simp_all add: set_page_def)

lemma fst_process_exit: "fst (process_exit n s) = Exit n"
  and trace_process_exit: "trace (snd (process_exit n s)) = trace s @ [ProcessExit n]"
  and page_process_exit: "page_var (snd (process_exit n s)) = page_var s"
  and context_process_exit: "context_var (snd (process_exit n s)) = context_var s"
  by (simp_all add: process_exit_def)

lemma read_page_apply: "read_page f s = f (page_var s) s"
  by (simp add: read_page_def)

lemma read_context_apply: "read_context f s = f (context_var s) s"
  by (simp add: read_context_def)

lemmas proj = fst_run_seq_Nil fst_run_seq_Cons trace_run_seq_Nil trace_run_seq_Cons
  page_run_seq_Nil page_run_seq_Cons context_run_seq_Nil context_run_seq_Cons
  fst_emit trace_emit page_emit context_emit
  fst_throw trace_throw page_throw context_throw
  fst_external trace_external page_external context_external
  fst_method_call trace_method_call page_method_call context_method_call
  fst_set_context trace_set_context page_set_context context_set_context
  fst_set_page trace_set_page page_set_page context_set_page
  fst_process_exit trace_process_exit page_process_exit context_process_exit
  read_page_apply read_context_apply

subsection \<open>Setup\<close>

lemma fst_assertFolderPathValue:
  "fst (assertFolderPathValue w v n s) =
     (if v = [] then Throw (Error (n @ '' is not set.''))
      else case folder_failure w v of None \<Rightarrow> Normal | Some e \<Rightarrow> Throw e)"
  by (simp add: assertFolderPathValue_def folder_failure_def fst_run_seq_Cons fst_emit fst_throw
      fst_external split: option.splits)

lemma fst_assertEnvVariableValue:
  "fst (assertEnvVariableValue v n required s) =
     (if \<not> truthy v \<and> required then Throw (Error (n @ '' environment variable is not set.''))
      else Normal)"
  by (simp add: assertEnvVariableValue_def fst_emit fst_throw)

lemma folder_paths_nonempty: "LOGS_FOLDER_PATH e \<noteq> []" "SCREENSHOT_FOLDER_PATH e \<noteq> []"
  by (simp_all add: LOGS_FOLDER_PATH_def SCREENSHOT_FOLDER_PATH_def)

lemma defaults_truthy:
  "truthy (Str (USER_AGENT e))" "truthy (Num (DEFAULT_ADDITIONAL_WAIT_TIME_SECONDS e))"
  by (simp_all add: USER_AGENT_def DEFAULT_ADDITIONAL_WAIT_TIME_SECONDS_def or_default_def num_or_def
      split: option.splits)

lemma fst_setup_step:
  "fst (setup_step w s) =
     (case folder_failure w (LOGS_FOLDER_PATH (env w)) of
        Some e \<Rightarrow> Throw e
      | None \<Rightarrow>
     (case loggingSetup w of
        Some e \<Rightarrow> Throw e
      | None \<Rightarrow>
     (case folder_failure w (SCREENSHOT_FOLDER_PATH (env w)) of
        Some e \<Rightarrow> Throw e
      | None \<Rightarrow>
          if truthy (BASE_URL (env w)) then Normal
          else Throw (Error ''BASE_URL environment variable is not set.''))))"
  unfolding setup_step_def
  by (simp only: fst_run_seq_Cons fst_run_seq_Nil fst_emit fst_external fst_assertFolderPathValue
        fst_assertEnvVariableValue folder_paths_nonempty defaults_truthy)
     (simp split: option.splits)

lemma fst_setup: "fst (setup_step w s) = setup_result w"
  and trace_setup: "trace (snd (setup_step w s)) = trace s @ setup_events w"
  and page_setup: "page_var (snd (setup_step w s)) = page_var s"
  and context_setup: "context_var (snd (setup_step w s)) = context_var s"
  unfolding setup_result_def setup_events_def
  by (rule emits_only_proj [OF setup_emits])+

lemma setup_events_kind: "list_all is_setup_event (setup_events w)"
  unfolding setup_events_def by (rule emits_only_proj(5) [OF setup_emits])

lemma setup_result_cases: "setup_result w = Normal \<or> (\<exists>e. setup_result w = Throw e)"
  using emits_only_proj(6) [OF setup_emits] unfolding setup_result_def
  by (cases "fst (setup_step w initial)") auto

subsection \<open>Waiting for the page\<close>



lemma fst_wait: "fst (waitEntirePageToLoad w (Some Page) None s) = wait_result w"
  and trace_wait: "trace (snd (waitEntirePageToLoad w (Some Page) None s)) = trace s @ wait_events w"
  and page_wait: "page_var (snd (waitEntirePageToLoad w page arg s)) = page_var s"
  and context_wait: "context_var (snd (waitEntirePageToLoad w page arg s)) = context_var s"
  unfolding wait_result_def wait_events_def
  by (rule emits_only_proj [OF wait_emits])+

lemma wait_events_kind: "list_all is_wait_event (wait_events w)"
  unfolding wait_events_def by (rule emits_only_proj(5) [OF wait_emits])

lemma wait_result_cases: "wait_result w = Normal \<or> (\<exists>e. wait_result w = Throw e)"
  using emits_only_proj(6) [OF wait_emits] unfolding wait_result_def
  by (cases "fst (waitEntirePageToLoad w (Some Page) None initial)") auto

subsection \<open>Screenshots\<close>

lemma fst_takeScreenshot:
  "fst (takeScreenshot w page prefix_arg s) =
     (case page of
        None \<Rightarrow> Throw (TypeError ''screenshot'')
      | Some _ \<Rightarrow> (case screenshot w of None \<Rightarrow> Normal | Some e \<Rightarrow> Throw e))"
  unfolding takeScreenshot_def by (simp add: proj split: option.splits)

lemma trace_takeScreenshot:
  "trace (snd (takeScreenshot w page prefix_arg s)) =
     trace s @
     (case page of
        None \<Rightarrow> []
      | Some _ \<Rightarrow>
          Screenshot (path_join w (SCREENSHOT_FOLDER_PATH (env w)) (screenshotFileName w prefix_arg)) #
          (case screenshot w of
             None \<Rightarrow> [ConsoleLog (''Screenshot taken: '' @ screenshotFileName w prefix_arg)]
           | Some _ \<Rightarrow> []))"
  unfolding takeScreenshot_def by (simp add: proj split: option.splits)

lemma page_takeScreenshot: "page_var (snd (takeScreenshot w page prefix_arg s)) = page_var s"
  and context_takeScreenshot: "context_var (snd (takeScreenshot w page prefix_arg s)) = context_var s"
  unfolding takeScreenshot_def by (simp_all add: proj split: option.splits)

subsection \<open>The blocks of main\<close>

lemma fst_acquire: "fst (acquire_context w s) = (case launch_failure w of None \<Rightarrow> Normal | Some e \<Rightarrow> Throw e)"
  and trace_acquire: "trace (snd (acquire_context w s)) = trace s @ [launch_event w]"
  and page_acquire: "page_var (snd (acquire_context w s)) = page_var s"
  and context_acquire: "context_var (snd (acquire_context w s)) =
        (case launch_failure w of None \<Rightarrow> Some (launch_session w) | Some _ \<Rightarrow> context_var s)"
  unfolding acquire_context_def launch_failure_def launch_event_def launch_session_def
  by (simp_all add: proj split: option.splits)

lemma fst_main_try:
  "fst (main_try w initial) =
     (case setup_result w of
        Normal \<Rightarrow>
          (case launch_failure w of Some e \<Rightarrow> Throw e | None \<Rightarrow>
          (case newPage w of Some e \<Rightarrow> Throw e | None \<Rightarrow>
          (case goto w of Some e \<Rightarrow> Throw e | None \<Rightarrow>
          (case wait_result w of
             Normal \<Rightarrow> (case processing w of Some e \<Rightarrow> Throw e | None \<Rightarrow> Normal)
           | c \<Rightarrow> c))))
      | c \<Rightarrow> c)"
  unfolding main_try_def
  by (simp add: proj fst_setup page_setup context_setup fst_acquire page_acquire context_acquire
      fst_wait split: option.splits completion.splits)

lemma page_main_try:
  "page_var (snd (main_try w initial)) =
     (if setup_result w = Normal \<and> launch_failure w = None \<and> newPage w = None then Some Page else None)"
  unfolding main_try_def
  by (simp add: proj fst_setup page_setup context_setup fst_acquire page_acquire context_acquire
      fst_wait page_wait initial_def split: option.splits completion.splits)

lemma context_main_try:
  "context_var (snd (main_try w initial)) =
     (if setup_result w = Normal \<and> launch_failure w = None then Some (launch_session w) else None)"
  unfolding main_try_def
  by (simp add: proj fst_setup page_setup context_setup fst_acquire page_acquire context_acquire
      fst_wait context_wait initial_def split: option.splits completion.splits)

lemma trace_main_try:
  "trace (snd (main_try w initial)) =
     ConsoleLog ([CHR 0x0A, CHR 0x0A] @ '' **** Starting ****'') # setup_events w @
     (if setup_result w \<noteq> Normal then [] else
      launch_event w #
     (if launch_failure w \<noteq> None then [] else
      NewPage #
     (if newPage w \<noteq> None then [] else
      Goto (BASE_URL (env w)) #
     (if goto w \<noteq> None then [] else
      wait_events w @
     (if wait_result w \<noteq> Normal then [] else
      Processing #
     (if processing w \<noteq> None then [] else [ConsoleLog ''Finishing...'']))))))"
  unfolding main_try_def
  by (simp add: proj fst_setup page_setup context_setup trace_setup fst_acquire page_acquire
      context_acquire trace_acquire fst_wait trace_wait page_wait initial_def
      split: option.splits completion.splits)

lemma fst_main_try_not_Exit: "fst (main_try w initial) \<noteq> Exit n"
  using setup_result_cases [of w] wait_result_cases [of w]
  by (auto simp: fst_main_try split: option.splits)

lemma fst_main_catch: "fst (main_catch w err s) = fst (takeScreenshot w (page_var s) (Some ''error'') s)"
  unfolding main_catch_def by (simp add: proj fst_takeScreenshot split: option.splits)

lemma trace_main_catch:
  "trace (snd (main_catch w err s)) =
     trace s @ ConsoleError ''Error occurred while processing visitors:'' err #
     (case page_var s of
        None \<Rightarrow> []
      | Some _ \<Rightarrow>
          Screenshot (path_join w (SCREENSHOT_FOLDER_PATH (env w)) (screenshotFileName w (Some ''error''))) #
          (case screenshot w of
             None \<Rightarrow> [ConsoleLog (''Screenshot taken: '' @ screenshotFileName w (Some ''error''))]
           | Some _ \<Rightarrow> []))"
  unfolding main_catch_def
  by (simp add: proj fst_takeScreenshot trace_takeScreenshot split: option.splits)

lemma page_main_catch: "page_var (snd (main_catch w err s)) = page_var s"
  and context_main_catch: "context_var (snd (main_catch w err s)) = context_var s"
  unfolding main_catch_def
  by (simp_all add: proj fst_takeScreenshot page_takeScreenshot context_takeScreenshot
      split: option.splits)

lemma fst_main_finally:
  "fst (main_finally w s) =
     (case page_var s of
        None \<Rightarrow> Throw (TypeError ''close'')
      | Some _ \<Rightarrow>
     (case pageClose w of
        Some e \<Rightarrow> Throw e
      | None \<Rightarrow>
     (case context_var s of
        None \<Rightarrow> Throw (TypeError ''close'')
      | Some _ \<Rightarrow>
     (case contextClose w of
        Some e \<Rightarrow> Throw e
      | None \<Rightarrow> Exit 0))))"
  unfolding main_finally_def by (simp add: proj split: option.splits)

lemma trace_main_finally:
  "trace (snd (main_finally w s)) =
     trace s @ ConsoleLog ''Closing resources...'' # ReadlineClose #
     (case page_var s of
        None \<Rightarrow> []
      | Some _ \<Rightarrow> PageClose #
     (case pageClose w of
        Some e \<Rightarrow> []
      | None \<Rightarrow>
     (case context_var s of
        None \<Rightarrow> []
      | Some _ \<Rightarrow> ContextClose #
     (case contextClose w of
        Some e \<Rightarrow> []
      | None \<Rightarrow> [ConsoleLog ''**** Done **** '', ProcessExit 0]))))"
  unfolding main_finally_def by (simp add: proj split: option.splits)

lemma page_main_finally: "page_var (snd (main_finally w s)) = page_var s"
  and context_main_finally: "context_var (snd (main_finally w s)) = context_var s"
  unfolding main_finally_def by (simp_all add: proj split: option.splits)

subsection \<open>The whole of main\<close>

text \<open>
  Neither the body nor the handler exits the process, and the \<open>finally\<close> block never
  completes normally: \<open>main\<close> ends as its \<open>finally\<close> block does.
\<close>

lemma main_eq: "main w = main_finally w (before_finally w)"
proof -
  obtain c1 s1 where body: "main_try w initial = (c1, s1)" by (cases "main_try w initial")
  have c1: "\<And>n. c1 \<noteq> Exit n" using fst_main_try_not_Exit [of w] by (simp add: body)
  obtain c3 s3 where final: "main_finally w (before_finally w) = (c3, s3)"
    by (cases "main_finally w (before_finally w)")
  have c3: "c3 \<noteq> Normal"
    using fst_main_finally [of w "before_finally w"] by (simp add: final split: option.splits)
  show ?thesis
  proof (cases c1)
    case Normal
    then have "before_finally w = s1" by (simp add: before_finally_def body)
    with Normal body final c3 show ?thesis
      by (cases c3) (simp_all add: main_def try_catch_finally_def)
  next
    case (Throw e)
    obtain c2 s2 where handler: "main_catch w e s1 = (c2, s2)" by (cases "main_catch w e s1")
    have c2: "\<And>n. c2 \<noteq> Exit n"
      using fst_main_catch [of w e s1] by (simp add: handler fst_takeScreenshot split: option.splits)
    have "before_finally w = s2" by (simp add: before_finally_def body Throw handler)
    with Throw body handler final c2 c3 show ?thesis
      by (cases c2; cases c3) (simp_all add: main_def try_catch_finally_def)
  next
    case (Exit n)
    with c1 [of n] show ?thesis by simp
  qed
qed

lemma page_before_finally: "page_var (before_finally w) = page_var (snd (main_try w initial))"
  and context_before_finally: "context_var (before_finally w) = context_var (snd (main_try w initial))"
  unfolding before_finally_def
  by (simp_all add: page_main_catch context_main_catch split: completion.splits)

lemma trace_before_finally:
  "trace (before_finally w) =
     trace (snd (main_try w initial)) @
     (case fst (main_try w initial) of
        Throw e \<Rightarrow>
          ConsoleError ''Error occurred while processing visitors:'' e #
          (case page_var (snd (main_try w initial)) of
             None \<Rightarrow> []
           | Some _ \<Rightarrow>
               Screenshot (path_join w (SCREENSHOT_FOLDER_PATH (env w)) (screenshotFileName w (Some ''error''))) #
               (case screenshot w of
                  None \<Rightarrow> [ConsoleLog (''Screenshot taken: '' @ screenshotFileName w (Some ''error''))]
                | Some _ \<Rightarrow> []))
      | _ \<Rightarrow> [])"
  unfolding before_finally_def
  by (simp add: trace_main_catch split: completion.splits)

lemma fst_main:
  "fst (main w) =
     (case page_var (snd (main_try w initial)) of
        None \<Rightarrow> Throw (TypeError ''close'')
      | Some _ \<Rightarrow>
     (case pageClose w of
        Some e \<Rightarrow> Throw e
      | None \<Rightarrow>
     (case context_var (snd (main_try w initial)) of
        None \<Rightarrow> Throw (TypeError ''close'')
      | Some _ \<Rightarrow>
     (case contextClose w of
        Some e \<Rightarrow> Throw e
      | None \<Rightarrow> Exit 0))))"
  by (simp add: main_eq fst_main_finally page_before_finally context_before_finally
      split: option.splits)

lemma page_main: "page_var (snd (main w)) = page_var (snd (main_try w initial))"
  and context_main: "context_var (snd (main w)) = context_var (snd (main_try w initial))"
  by (simp_all add: main_eq page_main_finally context_main_finally page_before_finally
      context_before_finally)

lemma page_context_main: "page_var (snd (main w)) \<noteq> None \<Longrightarrow> context_var (snd (main w)) \<noteq> None"
  by (simp add: page_main context_main page_main_try context_main_try split: if_splits)

lemma trace_main:
  "trace (snd (main w)) =
     trace (before_finally w) @ ConsoleLog ''Closing resources...'' # ReadlineClose #
     (case page_var (snd (main w)) of
        None \<Rightarrow> []
      | Some _ \<Rightarrow> PageClose #
     (case pageClose w of
        Some e \<Rightarrow> []
      | None \<Rightarrow> ContextClose #
     (case contextClose w of
        Some e \<Rightarrow> []
      | None \<Rightarrow> [ConsoleLog ''**** Done **** '', ProcessExit 0])))"
proof (cases "page_var (snd (main w))")
  case None
  then show ?thesis
    by (simp add: main_eq trace_main_finally page_main_finally)
next
  case (Some p)
  with page_context_main [of w] obtain c where "context_var (snd (main w)) = Some c" by auto
  with Some show ?thesis
    by (simp add: main_eq trace_main_finally page_main_finally context_main_finally
        split: option.splits)
qed

lemma list_all_filter_Nil: "list_all P xs \<Longrightarrow> (\<And>x. P x \<Longrightarrow> \<not> Q x) \<Longrightarrow> filter Q xs = []"
  by (induction xs) auto

lemma setup_no_close: "filter is_close (setup_events w) = []"
  by (rule list_all_filter_Nil [OF setup_events_kind]) (case_tac x, simp_all)

lemma wait_no_close: "filter is_close (wait_events w) = []"
  by (rule list_all_filter_Nil [OF wait_events_kind]) (case_tac x, simp_all)

lemma launch_event_kind: "\<not> is_close (launch_event w)" "is_launch (launch_event w)"
  "is_acquisition (launch_event w)" "launch_event w \<noteq> Processing" "Processing \<noteq> launch_event w"
  by (simp_all add: launch_event_def)

lemma try_no_close: "filter is_close (trace (snd (main_try w initial))) = []"
  by (simp add: trace_main_try setup_no_close wait_no_close launch_event_kind)

lemma before_finally_no_close: "filter is_close (trace (before_finally w)) = []"
  by (simp add: trace_before_finally try_no_close split: completion.splits option.splits)

lemma trace_main_after_try:
  "\<exists>tail. trace (snd (main w)) = trace (snd (main_try w initial)) @ tail
     \<and> filter is_acquisition tail = []"
proof (intro exI conjI)
  show "trace (snd (main w)) =
      trace (snd (main_try w initial)) @
      drop (length (trace (snd (main_try w initial)))) (trace (snd (main w)))"
    by (simp add: trace_main trace_before_finally)
  show "filter is_acquisition
      (drop (length (trace (snd (main_try w initial)))) (trace (snd (main w)))) = []"
    by (simp add: trace_main trace_before_finally split: completion.splits option.splits)
qed

subsection \<open>The prompt\<close>

lemma step_closed_idle: "closed p \<Longrightarrow> timer p = None \<Longrightarrow> step p i = p"
  by (cases i) simp_all

lemma run_Cons: "run p (i # inputs) = run (step p i) inputs"
  by (simp add: run_def)

lemma run_closed_idle: "closed p \<Longrightarrow> timer p = None \<Longrightarrow> run p inputs = p"
  unfolding run_def by (induction inputs) (simp_all add: step_closed_idle)

lemma timeout_state:
  "step (askUser e False q t) TimerFires =
     \<lparr>query = q, userAnswer = Undefined, aborted = True, timeout_listener = False,
      question_pending = False, timer = None, returned = Pending, closed = True,
      uncaught = [Error ''The question timed out...'']\<rparr>"
  by (simp add: askUser_def abort_def uncaughtException_def Let_def)

lemma askUser_answer_then_timer:
  "a \<noteq> [] \<Longrightarrow>
   run (askUser e False q t) [Line a, TimerFires] = (run (askUser e False q t) [Line a])\<lparr>timer := None\<rparr>"
  by (simp add: run_def askUser_def abort_def uncaughtException_def Let_def)

lemma askUser_late_answer:
  "returned (run (askUser e False q t) [TimerFires, Line a]) = Pending"
  by (simp add: run_def askUser_def abort_def uncaughtException_def Let_def)

subsection \<open>The numeric settings\<close>





section \<open>The properties\<close>

text \<open>
  C1 (as the code has it). In every run the \<open>finally\<close> block closes the prompt channel
  first, and after that it only closes the page and the session, prints the final message
  and exits: it logs no error. When a page was opened, the page and then the session are
  closed in that order, but a close that raises ends the teardown: the closes after it are
  not attempted, and its error is the completion of \<open>main\<close>.
\<close>

theorem main_teardown:
  "(\<exists>rest. filter is_close (trace (snd (main w))) = ReadlineClose # rest)
   \<and> (\<exists>pre post. trace (snd (main w)) = pre @ ReadlineClose # post
         \<and> set post \<subseteq> {PageClose, ContextClose, ConsoleLog ''**** Done **** '', ProcessExit 0})
   \<and> (page_var (snd (main w)) \<noteq> None \<longrightarrow>
        filter is_close (trace (snd (main w))) =
          (case pageClose w of
             Some e \<Rightarrow> [ReadlineClose, PageClose]
           | None \<Rightarrow> [ReadlineClose, PageClose, ContextClose])
        \<and> fst (main w) =
          (case pageClose w of
             Some e \<Rightarrow> Throw e
           | None \<Rightarrow> (case contextClose w of Some e \<Rightarrow> Throw e | None \<Rightarrow> Exit 0)))"
proof -
  let ?post = "case page_var (snd (main w)) of
        None \<Rightarrow> []
      | Some _ \<Rightarrow> PageClose #
     (case pageClose w of
        Some e \<Rightarrow> []
      | None \<Rightarrow> ContextClose #
     (case contextClose w of
        Some e \<Rightarrow> []
      | None \<Rightarrow> [ConsoleLog ''**** Done **** '', ProcessExit 0]))"
  have "trace (snd (main w)) =
      (trace (before_finally w) @ [ConsoleLog ''Closing resources...'']) @ ReadlineClose # ?post"
    by (simp add: trace_main)
  moreover have "set ?post \<subseteq> {PageClose, ContextClose, ConsoleLog ''**** Done **** '', ProcessExit 0}"
    by (auto split: option.splits)
  ultimately have logged: "\<exists>pre post. trace (snd (main w)) = pre @ ReadlineClose # post
      \<and> set post \<subseteq> {PageClose, ContextClose, ConsoleLog ''**** Done **** '', ProcessExit 0}"
    by blast
  show ?thesis
  proof (cases "page_var (snd (main w))")
    case None
    with logged show ?thesis by (simp add: trace_main before_finally_no_close)
  next
    case (Some p)
    with page_context_main [of w] obtain c where c: "context_var (snd (main w)) = Some c" by auto
    from Some c logged show ?thesis
      by (simp add: trace_main before_finally_no_close fst_main page_main [symmetric]
          context_main [symmetric] split: option.splits)
  qed
qed

text \<open>The run of the example world opens a page and closes all three resources.\<close>

theorem main_teardown_witness:
  "page_var (snd (main example_world)) \<noteq> None
   \<and> filter is_close (trace (snd (main example_world))) = [ReadlineClose, PageClose, ContextClose]
   \<and> fst (main example_world) = Exit 0"
proof -
  have p: "page_var (snd (main example_world)) \<noteq> None" by code_simp
  have "pageClose example_world = None" "contextClose example_world = None"
    by (simp_all add: example_world_def)
  with p main_teardown [of example_world] show ?thesis by simp
qed

text \<open>
  When closing the page raises, the session is not closed, the error leaves \<open>main\<close>
  and nothing logs it: the close of the session does depend on the close of the page.
\<close>

theorem teardown_short_circuits:
  "PageClose \<in> set (trace (snd (main page_close_fails_world)))
   \<and> ContextClose \<notin> set (trace (snd (main page_close_fails_world)))
   \<and> fst (main page_close_fails_world) = Throw (External ''page is gone'')
   \<and> ConsoleError ''Error occurred while processing visitors:'' (External ''page is gone'')
        \<notin> set (trace (snd (main page_close_fails_world)))"
  by code_simp




text \<open>
  C3 at the input \<open>askUser(q, t)\<close> with no answer. When the timer fires the question is
  cancelled, but the error is thrown inside the abort listener: the promise that the
  caller awaits is never settled, whatever happens later, the error reaches the handler of
  uncaught exceptions, and that handler closes the channel, so that a later question is
  refused.
\<close>

theorem askUser_timeout_leaves_promise_pending:
  "returned (run (askUser e False q t) (TimerFires # later)) = Pending
   \<and> uncaught (run (askUser e False q t) (TimerFires # later)) = [Error ''The question timed out...'']
   \<and> closed (run (askUser e False q t) (TimerFires # later))
   \<and> \<not> question_pending (run (askUser e False q t) (TimerFires # later))
   \<and> timer (askUser e False q (Some n)) = Some (1000 * n)
   \<and> returned (askUser e True q2 t2) = Rejected (External ''ERR_USE_AFTER_CLOSE'')"
proof -
  let ?p = "step (askUser e False q t) TimerFires"
  have p: "?p = \<lparr>query = q, userAnswer = Undefined, aborted = True, timeout_listener = False,
      question_pending = False, timer = None, returned = Pending, closed = True,
      uncaught = [Error ''The question timed out...'']\<rparr>"
    by (rule timeout_state)
  have "closed ?p" "timer ?p = None" unfolding p by simp_all
  then have "run (askUser e False q t) (TimerFires # later) = ?p"
    by (simp only: run_Cons run_closed_idle)
  then show ?thesis unfolding p by (simp add: askUser_def)
qed

text \<open>
  C4 at the input where the operator answers with the empty line before the timer fires.
  The call resolves with the empty string and nothing else has happened; the timer then
  finds \<open>userAnswer\<close> falsy and aborts: the time-out error is raised although the call was
  answered, and the channel is closed. The firing of the timer is not a no-op.
\<close>

theorem askUser_empty_answer_then_timer:
  "returned (run (askUser e False q t) [Line []]) = Resolved []
   \<and> uncaught (run (askUser e False q t) [Line []]) = []
   \<and> \<not> closed (run (askUser e False q t) [Line []])
   \<and> returned (run (askUser e False q t) [Line [], TimerFires]) = Resolved []
   \<and> uncaught (run (askUser e False q t) [Line [], TimerFires]) = [Error ''The question timed out...'']
   \<and> closed (run (askUser e False q t) [Line [], TimerFires])"
  by (simp add: run_def askUser_def abort_def uncaughtException_def Let_def)

text \<open>
  C5 (as the code has it). Only \<open>BASE_URL\<close> can be missing. When it is absent or empty,
  setup raises and \<open>main\<close> launches no browser; the error is the one that names
  \<open>BASE_URL\<close> unless creating a folder or the logging setup failed first. The identity
  string and the default wait are never missing, since a default replaces them.
\<close>

theorem setup_requires_BASE_URL:
  "(env w ''BASE_URL'' = None \<or> env w ''BASE_URL'' = Some [] \<longrightarrow>
      (\<exists>e. fst (setup_step w s) = Throw e)
      \<and> (folder_failure w (LOGS_FOLDER_PATH (env w)) = None \<and> loggingSetup w = None
           \<and> folder_failure w (SCREENSHOT_FOLDER_PATH (env w)) = None \<longrightarrow>
         fst (setup_step w s) = Throw (Error ''BASE_URL environment variable is not set.''))
      \<and> filter is_launch (trace (snd (main w))) = [])
   \<and> truthy (Str (USER_AGENT (env w)))
   \<and> truthy (Num (DEFAULT_ADDITIONAL_WAIT_TIME_SECONDS (env w)))"
proof -
  have "filter is_launch (trace (snd (main w))) = []" if "\<exists>e. fst (setup_step w s) = Throw e"
  proof -
    from that have r: "setup_result w \<noteq> Normal" by (auto simp: fst_setup)
    have "filter is_launch (setup_events w) = []"
      by (rule list_all_filter_Nil [OF setup_events_kind]) (case_tac x, simp_all)
    with r show ?thesis
      by (simp add: trace_main trace_before_finally trace_main_try page_main page_main_try
          split: completion.splits option.splits)
  qed
  moreover have "\<exists>e. fst (setup_step w s) = Throw e"
    if "env w ''BASE_URL'' = None \<or> env w ''BASE_URL'' = Some []"
    using that by (auto simp: fst_setup_step BASE_URL_def split: option.splits)
  moreover have "fst (setup_step w s) = Throw (Error ''BASE_URL environment variable is not set.'')"
    if "env w ''BASE_URL'' = None \<or> env w ''BASE_URL'' = Some []"
      and "folder_failure w (LOGS_FOLDER_PATH (env w)) = None" and "loggingSetup w = None"
      and "folder_failure w (SCREENSHOT_FOLDER_PATH (env w)) = None"
    using that by (auto simp: fst_setup_step BASE_URL_def)
  ultimately show ?thesis using defaults_truthy [of "env w"] by blast
qed

theorem setup_requires_BASE_URL_witness:
  "env no_base_url_world ''BASE_URL'' = None
   \<and> fst (setup_step no_base_url_world initial) = Throw (Error ''BASE_URL environment variable is not set.'')
   \<and> filter is_launch (trace (snd (main no_base_url_world))) = []"
proof -
  have a: "env no_base_url_world ''BASE_URL'' = None"
    by (simp add: no_base_url_world_def)
  have b: "folder_failure no_base_url_world (LOGS_FOLDER_PATH (env no_base_url_world)) = None"
    "loggingSetup no_base_url_world = None"
    "folder_failure no_base_url_world (SCREENSHOT_FOLDER_PATH (env no_base_url_world)) = None"
    by (simp_all add: no_base_url_world_def example_world_def folder_failure_def)
  from a b setup_requires_BASE_URL [of no_base_url_world initial] show ?thesis by simp
qed

text \<open>
  With \<open>BASE_URL\<close> set and neither \<open>USER_AGENT\<close> nor
  \<open>DEFAULT_ADDITIONAL_WAIT_TIME_SECONDS\<close>, setup completes and the browser is launched.
\<close>

theorem setup_accepts_missing_identity:
  "env example_world ''USER_AGENT'' = None
   \<and> env example_world ''DEFAULT_ADDITIONAL_WAIT_TIME_SECONDS'' = None
   \<and> fst (setup_step example_world initial) = Normal
   \<and> Launch (main_options example_world) \<in> set (trace (snd (main example_world)))"
  by code_simp








text \<open>
  C9. The launch is a persistent context over \<open>USER_DATA_DIR\<close> when that variable is a
  non-empty string and a plain launch otherwise. A run whose setup succeeds makes exactly
  one launch, the selected one. When the callback runs, the calls before it that acquire
  the session are that launch, one \<open>newPage\<close> and the navigation to \<open>BASE_URL\<close>, in this
  order, and \<open>main\<close> makes no such call afterwards.
\<close>

theorem session_acquisition_mode:
  "(\<forall>d. env w ''USER_DATA_DIR'' = Some d \<and> d \<noteq> [] \<longrightarrow>
        launch_event w = LaunchPersistentContext d (main_options w))
   \<and> (env w ''USER_DATA_DIR'' = None \<or> env w ''USER_DATA_DIR'' = Some [] \<longrightarrow>
        launch_event w = Launch (main_options w))
   \<and> (setup_result w = Normal \<longrightarrow> filter is_launch (trace (snd (main w))) = [launch_event w])
   \<and> (Processing \<in> set (trace (snd (main w))) \<longrightarrow>
        (\<exists>pre post. trace (snd (main w)) = pre @ Processing # post
           \<and> Processing \<notin> set pre
           \<and> filter is_acquisition pre = [launch_event w, NewPage, Goto (BASE_URL (env w))]
           \<and> filter is_acquisition post = []))"
proof -
  have kinds: "filter is_launch (setup_events w) = []" "filter is_launch (wait_events w) = []"
    "filter is_acquisition (setup_events w) = []" "filter is_acquisition (wait_events w) = []"
    "Processing \<notin> set (setup_events w)" "Processing \<notin> set (wait_events w)"
  proof -
    show "filter is_launch (setup_events w) = []"
      by (rule list_all_filter_Nil [OF setup_events_kind]) (case_tac x, simp_all)
    show "filter is_launch (wait_events w) = []"
      by (rule list_all_filter_Nil [OF wait_events_kind]) (case_tac x, simp_all)
    show "filter is_acquisition (setup_events w) = []"
      by (rule list_all_filter_Nil [OF setup_events_kind]) (case_tac x, simp_all)
    show "filter is_acquisition (wait_events w) = []"
      by (rule list_all_filter_Nil [OF wait_events_kind]) (case_tac x, simp_all)
    show "Processing \<notin> set (setup_events w)"
      using setup_events_kind [of w] by (auto simp: list_all_iff)
    show "Processing \<notin> set (wait_events w)"
      using wait_events_kind [of w] by (auto simp: list_all_iff)
  qed
  have a: "\<forall>d. env w ''USER_DATA_DIR'' = Some d \<and> d \<noteq> [] \<longrightarrow>
        launch_event w = LaunchPersistentContext d (main_options w)"
    by (simp add: launch_event_def USER_DATA_DIR_def)
  have b: "env w ''USER_DATA_DIR'' = None \<or> env w ''USER_DATA_DIR'' = Some [] \<longrightarrow>
        launch_event w = Launch (main_options w)"
    by (auto simp: launch_event_def USER_DATA_DIR_def)
  have c: "filter is_launch (trace (snd (main w))) = [launch_event w]" if "setup_result w = Normal"
    using that
    by (simp add: trace_main trace_before_finally trace_main_try kinds launch_event_kind
        split: completion.splits option.splits)
  have d: "\<exists>pre post. trace (snd (main w)) = pre @ Processing # post
           \<and> Processing \<notin> set pre
           \<and> filter is_acquisition pre = [launch_event w, NewPage, Goto (BASE_URL (env w))]
           \<and> filter is_acquisition post = []"
    if m: "Processing \<in> set (trace (snd (main w)))"
  proof -
    let ?pre = "ConsoleLog ([CHR 0x0A, CHR 0x0A] @ '' **** Starting ****'') # setup_events w @
      launch_event w # NewPage # Goto (BASE_URL (env w)) # wait_events w"
    have reached: "setup_result w = Normal \<and> launch_failure w = None \<and> newPage w = None
        \<and> goto w = None \<and> wait_result w = Normal"
    proof (rule ccontr)
      assume "\<not> ?thesis"
      then have "Processing \<notin> set (trace (snd (main w)))"
        by (auto simp: trace_main trace_before_finally trace_main_try kinds launch_event_kind
            split: completion.splits option.splits)
      with m show False by simp
    qed
    then obtain rest where t: "trace (snd (main_try w initial)) = ?pre @ Processing # rest"
      and r: "filter is_acquisition rest = []"
      by (simp add: trace_main_try)
    obtain tail where u: "trace (snd (main w)) = trace (snd (main_try w initial)) @ tail"
      and v: "filter is_acquisition tail = []"
      using trace_main_after_try [of w] by blast
    from t u have p: "trace (snd (main w)) = ?pre @ Processing # (rest @ tail)" by simp
    from r v have q: "filter is_acquisition (rest @ tail) = []" by simp
    have "Processing \<notin> set ?pre" by (simp add: kinds launch_event_kind)
    moreover have "filter is_acquisition ?pre = [launch_event w, NewPage, Goto (BASE_URL (env w))]"
      by (simp add: kinds launch_event_kind)
    ultimately show ?thesis using p q by blast
  qed
  from a b c d show ?thesis by blast
qed

theorem session_acquisition_mode_witness:
  "env persistent_world ''USER_DATA_DIR'' = Some ''profile''
   \<and> setup_result persistent_world = Normal
   \<and> filter is_launch (trace (snd (main persistent_world))) =
       [LaunchPersistentContext ''profile'' (main_options persistent_world)]
   \<and> setup_result example_world = Normal
   \<and> filter is_launch (trace (snd (main example_world))) = [Launch (main_options example_world)]
   \<and> Processing \<in> set (trace (snd (main example_world)))"
proof -
  have a: "env persistent_world ''USER_DATA_DIR'' = Some ''profile''"
    "env example_world ''USER_DATA_DIR'' = None"
    by (simp_all add: persistent_world_def example_world_def example_env_def)
  have b: "setup_result persistent_world = Normal" "setup_result example_world = Normal"
    by code_simp+
  have c: "Processing \<in> set (trace (snd (main example_world)))" by code_simp
  from session_acquisition_mode [of persistent_world] session_acquisition_mode [of example_world]
    a b c
  show ?thesis by simp
qed



end
